theory Spec2Isabelle
  imports Main "HOL-Library.AList"
begin

section \<open>rufl: a shallow embedding of main.go\<close>

text \<open>
  Go strings are byte sequences, so a Go \<^verbatim>\<open>string\<close> is a \<^typ>\<open>string\<close> (a list of
  8-bit characters). Package-level variables and everything the program does to the
  outside (standard output, child processes, signals sent) are fields of one record
  \<open>world\<close> that every function takes and returns. Library functions (\<^verbatim>\<open>strings\<close>,
  \<^verbatim>\<open>fmt\<close>, \<^verbatim>\<open>bufio\<close>, \<^verbatim>\<open>time\<close>) are modelled for the calls the program makes.
\<close>

subsection \<open>Package strings\<close>

fun HasPrefix :: "string \<Rightarrow> string \<Rightarrow> bool" where
  "HasPrefix s [] = True"
| "HasPrefix [] (p # ps) = False"
| "HasPrefix (c # s) (p # ps) = (c = p \<and> HasPrefix s ps)"

fun Contains :: "string \<Rightarrow> string \<Rightarrow> bool" where
  "Contains [] substr = (substr = [])"
| "Contains (c # s) substr = (HasPrefix (c # s) substr \<or> Contains s substr)"

text \<open>\<open>Cut s sep\<close>: the text before and after the first occurrence of \<open>sep\<close> in \<open>s\<close>.\<close>

fun Cut :: "string \<Rightarrow> string \<Rightarrow> (string \<times> string) option" where
  "Cut [] sep = (if sep = [] then Some ([], []) else None)"
| "Cut (c # s) sep =
     (if HasPrefix (c # s) sep then Some ([], drop (length sep) (c # s))
      else (case Cut s sep of None \<Rightarrow> None | Some (before, after) \<Rightarrow> Some (c # before, after)))"

text \<open>
  \<^verbatim>\<open>strings.SplitN(s, sep, 2)\<close> for a non-empty separator: at most one split, at the first
  occurrence of the separator; a string without the separator comes back whole.
\<close>

definition SplitN2 :: "string \<Rightarrow> string \<Rightarrow> string list" where
  "SplitN2 s sep = (case Cut s sep of None \<Rightarrow> [s] | Some (before, after) \<Rightarrow> [before, after])"

fun Join :: "string list \<Rightarrow> string \<Rightarrow> string" where
  "Join [] sep = []"
| "Join [x] sep = x"
| "Join (x # y # ys) sep = x @ sep @ Join (y # ys) sep"

subsection \<open>Package fmt\<close>

text \<open>The decimal digit \<open>d\<close>, for \<open>d\<close> below ten, read off the table of digits.\<close>

definition digit_char :: "nat \<Rightarrow> char" where
  "digit_char d = ''0123456789'' ! d"

fun digits :: "nat \<Rightarrow> string" where
  "digits n = (if n < 10 then [digit_char n] else digits (n div 10) @ [digit_char (n mod 10)])"

definition itoa :: "int \<Rightarrow> string" where
  "itoa n = (if n < 0 then CHR ''-'' # digits (nat (- n)) else digits (nat n))"

datatype fmt_arg = S string | D int

fun verb :: "char \<Rightarrow> fmt_arg \<Rightarrow> string" where
  "verb v (S s) = s"
| "verb v (D n) = itoa n"

text \<open>
  \<^verbatim>\<open>fmt.Sprintf\<close> on the calls of the program: each \<^verbatim>\<open>%s\<close>, \<^verbatim>\<open>%d\<close>, \<^verbatim>\<open>%v\<close> takes the
  next operand, a string or an integer, and every call supplies as many operands as verbs.
\<close>

fun Sprintf :: "string \<Rightarrow> fmt_arg list \<Rightarrow> string" where
  "Sprintf [] args = []"
| "Sprintf [c] args = [c]"
| "Sprintf (c # v # rest) [] = c # Sprintf (v # rest) []"
| "Sprintf (c # v # rest) (a # args) =
     (if c = CHR ''%'' then verb v a @ Sprintf rest args
      else c # Sprintf (v # rest) (a # args))"

subsection \<open>Package time\<close>

text \<open>
  A \<^verbatim>\<open>time.Time\<close> is the number of nanoseconds since the zero instant; the zero value of
  the type is that instant. \<^verbatim>\<open>Sub\<close> yields a 64-bit \<^verbatim>\<open>Duration\<close> and saturates.
\<close>

type_synonym Time = int

definition IsZero :: "Time \<Rightarrow> bool" where
  "IsZero t = (t = 0)"

definition maxDuration :: int where
  "maxDuration = 2 ^ 63 - 1"

definition minDuration :: int where
  "minDuration = - (2 ^ 63)"

definition Sub :: "Time \<Rightarrow> Time \<Rightarrow> int" where
  "Sub t u = (let d = t - u in
     if d > maxDuration then maxDuration else if d < minDuration then minDuration else d)"

definition Second :: int where
  "Second = 1000000000"

subsection \<open>Package-level state and the outside world\<close>

definition colorReset :: string where "colorReset = CHR 0x1B # ''[0m''"
definition colorRed :: string where "colorRed = CHR 0x1B # ''[31m''"
definition colorGreen :: string where "colorGreen = CHR 0x1B # ''[32m''"
definition colorYellow :: string where "colorYellow = CHR 0x1B # ''[33m''"
definition colorBlue :: string where "colorBlue = CHR 0x1B # ''[34m''"
definition colorPurple :: string where "colorPurple = CHR 0x1B # ''[35m''"
definition colorCyan :: string where "colorCyan = CHR 0x1B # ''[36m''"

record CommandInfo =
  Command :: string
  Tag :: string
  Index :: int

type_synonym pid = int
type_synonym addr = nat

text \<open>An \<^verbatim>\<open>exec.Cmd\<close> object; \<open>Process\<close> is nil until \<^verbatim>\<open>Start\<close> has succeeded.\<close>

record Cmd =
  Args :: "string list"
  Env :: "string list"
  Process :: "pid option"

datatype signal = SIGHUP | SIGINT | SIGTERM

fun signum :: "signal \<Rightarrow> int" where
  "signum SIGHUP = 1"
| "signum SIGINT = 2"
| "signum SIGTERM = 15"

fun signame :: "signal \<Rightarrow> string" where
  "signame SIGHUP = ''hangup''"
| "signame SIGINT = ''interrupt''"
| "signame SIGTERM = ''terminated''"

datatype delivery = Signal signal | Kill

text \<open>
  \<open>heap\<close> holds the \<^verbatim>\<open>exec.Cmd\<close> objects by address, \<open>fresh\<close> being the next
  unused address: \<open>currentSequentialCmd\<close> and the values of \<open>activeCommands\<close> are
  pointers to the object that \<^verbatim>\<open>executeCommand\<close> goes on to mutate. \<open>activeCommands\<close> is the \<^verbatim>\<open>sync.Map\<close>, as an
  association list. \<open>children\<close> are the child processes started and not yet reaped,
  \<open>delivered\<close> the signals sent to processes, \<open>stdout\<close> the writes to standard output.
\<close>

record world =
  noColor :: bool
  colorSupported :: bool
  envVars :: "string list"
  tags :: "string list"
  activeCommands :: "(string \<times> addr) list"
  forceShell :: bool
  parallelMode :: bool
  lastSigIntTime :: Time
  currentSequentialCmd :: "addr option"
  windows :: bool
  environ :: "string list"
  heap :: "addr \<Rightarrow> Cmd"
  fresh :: addr
  stdout :: "string list"
  children :: "pid list"
  delivered :: "(pid \<times> delivery) list"

text \<open>\<^verbatim>\<open>os.Exit(code)\<close> ends the program; otherwise the function returns its value.\<close>

datatype 'a result = Exit int | Return 'a

definition Print :: "string \<Rightarrow> world \<Rightarrow> world" where
  "Print s w = w\<lparr>stdout := stdout w @ [s]\<rparr>"

definition Println :: "string \<Rightarrow> world \<Rightarrow> world" where
  "Println s w = Print (s @ [CHR 0x0A]) w"

definition Printf :: "string \<Rightarrow> fmt_arg list \<Rightarrow> world \<Rightarrow> world" where
  "Printf f args w = Print (Sprintf f args) w"

definition printColoredMessage :: "string \<Rightarrow> string \<Rightarrow> world \<Rightarrow> world" where
  "printColoredMessage message color w =
     (if noColor w \<or> \<not> colorSupported w then Println message w
      else Println (color @ message @ colorReset) w)"

subsection \<open>processCommands\<close>

text \<open>The anonymous struct \<^verbatim>\<open>{Tag, Command}\<close> is a pair, tag first.\<close>

type_synonym taggedCommand = "string \<times> string"

definition warnInline :: string where
  "warnInline = ''Warning: Invalid tag format '' @ [CHR 0x27] @ ''%s'' @ [CHR 0x27]
     @ '', expected '' @ [CHR 0x27] @ ''+NAME:COMMAND'' @ [CHR 0x27, CHR 0x0A]"

definition warnFlag :: string where
  "warnFlag = ''Warning: Invalid tag format '' @ [CHR 0x27] @ ''%s'' @ [CHR 0x27]
     @ '', expected '' @ [CHR 0x27] @ ''NAME:COMMAND'' @ [CHR 0x27, CHR 0x0A]"

text \<open>First loop: separate regular arguments from \<^verbatim>\<open>+tag:command\<close> arguments.\<close>

fun separateArgs ::
  "string list \<Rightarrow> string list \<times> taggedCommand list \<times> world
     \<Rightarrow> string list \<times> taggedCommand list \<times> world" where
  "separateArgs [] st = st"
| "separateArgs (arg # args) (regularArgs, taggedCommands, w) =
     (if HasPrefix arg ''+'' \<and> Contains arg '':'' then
        (let tagParts = SplitN2 (drop 1 arg) '':'' in
         if length tagParts \<noteq> 2 then
           separateArgs args (regularArgs, taggedCommands, Printf warnInline [S arg] w)
         else
           separateArgs args
             (regularArgs, taggedCommands @ [(tagParts ! 0, tagParts ! 1)], w))
      else separateArgs args (regularArgs @ [arg], taggedCommands, w))"

text \<open>Second loop: the declarations of the \<^verbatim>\<open>-t\<close> flag.\<close>

fun addTagFlags :: "string list \<Rightarrow> taggedCommand list \<times> world \<Rightarrow> taggedCommand list \<times> world" where
  "addTagFlags [] st = st"
| "addTagFlags (tag # rest) (taggedCommands, w) =
     (let tagParts = SplitN2 tag '':'' in
      if length tagParts \<noteq> 2 then
        addTagFlags rest (taggedCommands, Printf warnFlag [S tag] w)
      else addTagFlags rest (taggedCommands @ [(tagParts ! 0, tagParts ! 1)], w))"

text \<open>
  The inner loop over \<open>taggedCommands\<close> from position \<open>j\<close>: at the first declaration whose
  command equals \<open>cmd\<close> it takes the tag, removes that element and breaks.
\<close>

function findTag :: "string \<Rightarrow> taggedCommand list \<Rightarrow> nat \<Rightarrow> string \<Rightarrow> string \<times> taggedCommand list" where
  "findTag cmd taggedCommands j tag =
     (if j < length taggedCommands then
        (if snd (taggedCommands ! j) = cmd then
           (fst (taggedCommands ! j), take j taggedCommands @ drop (j + 1) taggedCommands)
         else findTag cmd taggedCommands (j + 1) tag)
      else (tag, taggedCommands))"
  by pat_completeness auto
termination
  by (relation "measure (\<lambda>(cmd, taggedCommands, j, tag). length taggedCommands - j)") auto

declare findTag.simps [simp del]

text \<open>Third loop: the regular arguments, from position \<open>i\<close>.\<close>

fun tagRegular ::
  "int \<Rightarrow> string list \<Rightarrow> taggedCommand list \<times> CommandInfo list
     \<Rightarrow> taggedCommand list \<times> CommandInfo list" where
  "tagRegular i [] st = st"
| "tagRegular i (cmd # rest) (taggedCommands, commands) =
     (let (tag, taggedCommands') = findTag cmd taggedCommands 0 (Sprintf ''%d'' [D (i + 1)]) in
      tagRegular (i + 1) rest
        (taggedCommands', commands @ [\<lparr>Command = cmd, Tag = tag, Index = i\<rparr>]))"

text \<open>Fourth loop: the remaining tagged commands.\<close>

fun addRemaining :: "taggedCommand list \<Rightarrow> int \<times> CommandInfo list \<Rightarrow> int \<times> CommandInfo list" where
  "addRemaining [] st = st"
| "addRemaining (taggedCmd # rest) (remainingIndex, commands) =
     addRemaining rest
       (remainingIndex + 1,
        commands @ [\<lparr>Command = snd taggedCmd, Tag = fst taggedCmd, Index = remainingIndex\<rparr>])"

definition noCommands :: string where
  "noCommands = ''Error: No commands specified. Use positional arguments, +tag:command syntax, or -t/--tag flags.''"

definition processCommands :: "string list \<Rightarrow> world \<Rightarrow> CommandInfo list result \<times> world" where
  "processCommands args w =
     (let (regularArgs, taggedCommands1, w1) = separateArgs args ([], [], w);
          (taggedCommands2, w2) = addTagFlags (tags w1) (taggedCommands1, w1);
          (taggedCommands3, commands1) = tagRegular 0 regularArgs (taggedCommands2, []);
          (remainingIndex, commands) =
             addRemaining taggedCommands3 (int (length regularArgs), commands1)
      in if length commands = 0 then (Exit 1, Println noCommands w2)
         else (Return commands, w2))"

subsection \<open>needsShell\<close>

definition shellSpecialChars :: "string list" where
  "shellSpecialChars =
     [''|'', ''&'', '';'', ''<'', ''>'', ''('', '')'', ''$'', [CHR 0x60], [CHR 0x5C],
      [CHR 0x22], [CHR 0x27], ''*'', ''?'', ''['', '']'', ''#'', ''~'', ''='', ''%'']"

text \<open>The loop over \<open>shellSpecialChars\<close>, returning at the first character found.\<close>

fun anySpecial :: "string \<Rightarrow> string list \<Rightarrow> bool" where
  "anySpecial command [] = False"
| "anySpecial command (char # chars) =
     (if Contains command char then True else anySpecial command chars)"

definition needsShell :: "world \<Rightarrow> string \<Rightarrow> bool" where
  "needsShell w command =
     (if forceShell w then True
      else if length (envVars w) > 0 then True
      else if anySpecial command shellSpecialChars then True
      else if Contains command ''&&'' \<or> Contains command ''||'' \<or> Contains command '';'' then True
      else if Contains command ''>'' \<or> Contains command ''<'' then True
      else if Contains command ''|'' then True
      else if Contains command ''*'' \<or> Contains command ''?'' \<or> Contains command ''['' then True
      else False)"

subsection \<open>processOutput\<close>

text \<open>
  \<^verbatim>\<open>bufio.NewScanner(pipe)\<close> splits with \<^verbatim>\<open>ScanLines\<close> and keeps the default buffer limit
  \<^verbatim>\<open>MaxScanTokenSize\<close>: a line, its newline included, has to fit in a buffer of that
  many bytes. \<open>scanAll data\<close> gives the tokens that the successive calls of \<^verbatim>\<open>Scan\<close>
  deliver on a pipe that carries \<open>data\<close> and is then closed, and whether scanning stopped
  with \<^verbatim>\<open>ErrTooLong\<close>. \<^verbatim>\<open>ScanLines\<close> drops one trailing carriage return of a line and
  delivers a last line that has no newline, unless it is empty.
\<close>

definition MaxScanTokenSize :: nat where
  "MaxScanTokenSize = 64 * 1024"

definition ErrTooLong :: string where
  "ErrTooLong = ''bufio.Scanner: token too long''"

definition dropCR :: "string \<Rightarrow> string" where
  "dropCR data = (if data \<noteq> [] \<and> last data = CHR 0x0D then butlast data else data)"

function scanAll :: "string \<Rightarrow> string list \<times> bool" where
  "scanAll data =
     (if data = [] then ([], False)
      else
        (let line = takeWhile (\<lambda>c. c \<noteq> CHR 0x0A) data;
             rest = dropWhile (\<lambda>c. c \<noteq> CHR 0x0A) data
         in if MaxScanTokenSize \<le> length line then ([], True)
            else (case scanAll (drop 1 rest) of
                    (tokens, tooLong) \<Rightarrow> (dropCR line # tokens, tooLong))))"
  by pat_completeness auto
termination
proof (relation "measure length")
  show "wf (measure length)" by simp
next
  fix data :: string and line rest
  assume "data \<noteq> []" and "rest = dropWhile (\<lambda>c. c \<noteq> CHR 0x0A) data"
  then show "(drop 1 rest, data) \<in> measure length"
    using length_dropWhile_le [of "\<lambda>c. c \<noteq> CHR 0x0A" data] by (cases data) auto
qed

declare scanAll.simps [simp del]

text \<open>The body of the loop: one line of the child, written with its prefix.\<close>

definition writeLine :: "string \<Rightarrow> string \<Rightarrow> string \<Rightarrow> string \<Rightarrow> world \<Rightarrow> world" where
  "writeLine tag streamType color line w =
     (if noColor w \<or> \<not> colorSupported w then
        Println (Sprintf ''[%s:%s] '' [S tag, S streamType] @ line) w
      else Print (color @ Sprintf ''[%s] '' [S tag] @ colorReset @ line @ [CHR 0x0A]) w)"

fun writeLines :: "string \<Rightarrow> string \<Rightarrow> string \<Rightarrow> string list \<Rightarrow> world \<Rightarrow> world" where
  "writeLines tag streamType color [] w = w"
| "writeLines tag streamType color (line # rest) w =
     writeLines tag streamType color rest (writeLine tag streamType color line w)"

definition processOutput :: "string \<Rightarrow> string \<Rightarrow> string \<Rightarrow> string \<Rightarrow> world \<Rightarrow> world" where
  "processOutput pipe tag streamType color w =
     (case scanAll pipe of
        (tokens, tooLong) \<Rightarrow>
          (let w' = writeLines tag streamType color tokens w in
           if tooLong then
             printColoredMessage
               (Sprintf ''[%s] Error reading %s: %v'' [S tag, S streamType, S ErrTooLong])
               colorRed w'
           else w'))"

subsection \<open>The signal handler of setupSignalHandling\<close>

definition sendTo :: "pid \<Rightarrow> delivery \<Rightarrow> world \<Rightarrow> world" where
  "sendTo p d w = w\<lparr>delivered := delivered w @ [(p, d)]\<rparr>"

text \<open>\<^verbatim>\<open>activeCommands.Range\<close>: forward the signal to every registered command.\<close>

fun forwardAll :: "signal \<Rightarrow> (string \<times> addr) list \<Rightarrow> world \<Rightarrow> world" where
  "forwardAll sig [] w = w"
| "forwardAll sig ((key, cmd) # rest) w =
     (case Process (heap w cmd) of
        None \<Rightarrow> forwardAll sig rest w
      | Some p \<Rightarrow>
          (if windows w \<and> sig = SIGHUP then forwardAll sig rest (sendTo p Kill w)
           else forwardAll sig rest (sendTo p (Signal sig) w)))"

definition doubleNotice :: string where
  "doubleNotice = ''Double Ctrl+C detected. Exiting...''"

definition singleNotice :: string where
  "singleNotice = ''Interrupting current command. Press Ctrl+C again within 1 second to exit rufl.''"

text \<open>
  One iteration of the loop over \<open>signalChan\<close>, for the signal \<open>sig\<close> received when
  \<^verbatim>\<open>time.Now()\<close> is \<open>now\<close>. \<open>Return ()\<close>: the loop goes on to the next signal.
\<close>

definition handleSignal :: "signal \<Rightarrow> Time \<Rightarrow> world \<Rightarrow> unit result \<times> world" where
  "handleSignal sig now w =
     (if sig = SIGINT \<and> \<not> parallelMode w then
        (if \<not> IsZero (lastSigIntTime w) \<and> Sub now (lastSigIntTime w) < Second then
           (Exit 130, printColoredMessage doubleNotice colorYellow w)
         else
           (let w1 = w\<lparr>lastSigIntTime := now\<rparr>;
                w2 = printColoredMessage singleNotice colorYellow w1;
                w3 = (case currentSequentialCmd w2 of
                        None \<Rightarrow> w2
                      | Some cmd \<Rightarrow>
                          (case Process (heap w2 cmd) of
                             None \<Rightarrow> w2
                           | Some p \<Rightarrow> sendTo p (Signal sig) w2))
            in (Return (), w3)))
      else
        (let w1 = printColoredMessage
                    (Sprintf ''Received signal: %v. Forwarding to all child processes...''
                       [S (signame sig)])
                    colorYellow w;
             w2 = forwardAll sig (activeCommands w1) w1
         in if (sig = SIGINT \<or> sig = SIGTERM) \<and> parallelMode w2 then
              (Exit (128 + signum sig), w2)
            else if sig = SIGTERM \<and> \<not> parallelMode w2 then (Exit (128 + signum sig), w2)
            else (Return (), w2)))"

subsection \<open>executeCommand\<close>

text \<open>
  What the outside does for one command is given by a \<open>script\<close>: the result of
  \<^verbatim>\<open>shlex.Split\<close>, of the two pipe creations, of \<^verbatim>\<open>Start\<close> (an error, or the process id of
  the child), the bytes the child writes, and the error value of \<^verbatim>\<open>Wait\<close>, which returns
  once the child has been reaped.
\<close>

datatype wait_err = WaitNil | ExitError int | WaitError string

record script =
  split_result :: "string + string list"
  stdoutPipe_err :: "string option"
  stderrPipe_err :: "string option"
  start_result :: "string + pid"
  stdout_data :: string
  stderr_data :: string
  wait_result :: wait_err

text \<open>
  The signal handler and, in parallel mode, the other commands run concurrently with
  \<^verbatim>\<open>executeCommand\<close>, so the function is a sequence of steps, one for each statement that
  touches shared state or the operating system; \<open>pc\<close> names the point reached:
  \<open>Built\<close> after \<^verbatim>\<open>exec.Command\<close>, \<open>Recorded\<close> after the assignment to
  \<open>currentSequentialCmd\<close>, \<open>Piped\<close> after the pipes, \<open>Started\<close> after \<^verbatim>\<open>cmd.Start()\<close>,
  \<open>Stored\<close> after \<^verbatim>\<open>activeCommands.Store\<close>, \<open>Drained\<close> after \<^verbatim>\<open>outputWg.Wait()\<close>,
  \<open>Waited\<close> after \<^verbatim>\<open>cmd.Wait()\<close>, \<open>Deleted\<close> after \<^verbatim>\<open>activeCommands.Delete\<close>,
  \<open>Cleared\<close> after the reset of \<open>currentSequentialCmd\<close>, \<open>Returned\<close> at the end.
  \<open>Panicked\<close> is a nil pointer dereference.
\<close>

datatype pc = Entry | Built | Recorded | Piped | Started | Stored | Drained | Waited
  | Deleted | Cleared | Returned | Panicked

text \<open>The locals of one call: \<open>cmd\<close> is nil until \<^verbatim>\<open>exec.Command\<close> has been called.\<close>

record thread =
  cmdInfo :: CommandInfo
  script :: script
  pc :: pc
  cmd :: "addr option"
  cmdID :: string
  err :: wait_err

definition newCmd :: "string list \<Rightarrow> world \<Rightarrow> addr \<times> world" where
  "newCmd argv w =
     (fresh w,
      w\<lparr>heap := (heap w)(fresh w := \<lparr>Args = argv, Env = [], Process = None\<rparr>),
        fresh := fresh w + 1\<rparr>)"

definition build :: "thread \<Rightarrow> world \<Rightarrow> thread \<times> world" where
  "build t w =
     (let ci = cmdInfo t in
      if needsShell w (Command ci) then
        (let argv = (if windows w then [''cmd'', ''/C'', Command ci]
                     else [''sh'', ''-c'', Command ci]);
             (a, w1) = newCmd argv w
         in (t\<lparr>cmd := Some a, pc := Built\<rparr>,
             printColoredMessage
               (Sprintf ''[%s] Executing with shell: %s'' [S (Tag ci), S (Command ci)])
               colorCyan w1))
      else
        (case split_result (script t) of
           Inl e \<Rightarrow>
             (t\<lparr>pc := Returned\<rparr>,
              printColoredMessage
                (Sprintf ''[%s] Error parsing command: %v'' [S (Tag ci), S e]) colorRed w)
         | Inr args \<Rightarrow>
             if length args = 0 then
               (t\<lparr>pc := Returned\<rparr>,
                printColoredMessage (Sprintf ''[%s] Empty command'' [S (Tag ci)]) colorRed w)
             else
               (let (a, w1) = newCmd args w
                in (t\<lparr>cmd := Some a, pc := Built\<rparr>,
                    printColoredMessage
                      (Sprintf ''[%s] Executing directly: %s''
                         [S (Tag ci), S (Command ci)])
                      colorCyan w1))))"

definition pipes :: "addr \<Rightarrow> thread \<Rightarrow> world \<Rightarrow> thread \<times> world" where
  "pipes a t w =
     (let env = (if length (envVars w) > 0 then environ w @ envVars w else environ w);
          w1 = w\<lparr>heap := (heap w)(a := (heap w a)\<lparr>Env := env\<rparr>)\<rparr>
      in case stdoutPipe_err (script t) of
           Some e \<Rightarrow>
             (t\<lparr>pc := Returned\<rparr>,
              Printf (''Error creating stdout pipe for command %s: %v'' @ [CHR 0x0A])
                [S (Tag (cmdInfo t)), S e] w1)
         | None \<Rightarrow>
             (case stderrPipe_err (script t) of
                Some e \<Rightarrow>
                  (t\<lparr>pc := Returned\<rparr>,
                   Printf (''Error creating stderr pipe for command %s: %v'' @ [CHR 0x0A])
                     [S (Tag (cmdInfo t)), S e] w1)
              | None \<Rightarrow>
                  (t\<lparr>pc := Piped\<rparr>,
                   if length (envVars w1) > 0 then
                     printColoredMessage
                       (Sprintf ''[%s] With additional environment: %s''
                          [S (Tag (cmdInfo t)), S (Join (envVars w1) '', '')])
                       colorPurple w1
                   else w1)))"

definition startCmd :: "addr \<Rightarrow> thread \<Rightarrow> world \<Rightarrow> thread \<times> world" where
  "startCmd a t w =
     (case start_result (script t) of
        Inl e \<Rightarrow>
          (t\<lparr>pc := Returned\<rparr>,
           printColoredMessage
             (Sprintf ''[%s] Error starting command: %v'' [S (Tag (cmdInfo t)), S e]) colorRed w)
      | Inr p \<Rightarrow>
          (t\<lparr>pc := Started\<rparr>,
           w\<lparr>heap := (heap w)(a := (heap w a)\<lparr>Process := Some p\<rparr>),
             children := children w @ [p]\<rparr>))"

definition report :: "thread \<Rightarrow> world \<Rightarrow> world" where
  "report t w =
     (case err t of
        ExitError status \<Rightarrow>
          printColoredMessage
            (Sprintf ''[%s] Command exited with status: %d'' [S (Tag (cmdInfo t)), D status])
            colorYellow w
      | WaitError e \<Rightarrow>
          printColoredMessage
            (Sprintf ''[%s] Error waiting for command: %v'' [S (Tag (cmdInfo t)), S e]) colorRed w
      | WaitNil \<Rightarrow>
          printColoredMessage
            (Sprintf ''[%s] Command completed successfully'' [S (Tag (cmdInfo t))]) colorGreen w)"

text \<open>
  One step of \<^verbatim>\<open>executeCommand\<close>. The two goroutines that read the pipes are one step
  here, standard output first: the order in which their lines interleave is not modelled.
\<close>

definition exec_step :: "thread \<Rightarrow> world \<Rightarrow> thread \<times> world" where
  "exec_step t w =
     (case pc t of
        Entry \<Rightarrow> build t w
      | Built \<Rightarrow>
          (t\<lparr>pc := Recorded\<rparr>,
           if \<not> parallelMode w then w\<lparr>currentSequentialCmd := cmd t\<rparr> else w)
      | Recorded \<Rightarrow>
          (case cmd t of None \<Rightarrow> (t\<lparr>pc := Panicked\<rparr>, w) | Some a \<Rightarrow> pipes a t w)
      | Piped \<Rightarrow>
          (case cmd t of None \<Rightarrow> (t\<lparr>pc := Panicked\<rparr>, w) | Some a \<Rightarrow> startCmd a t w)
      | Started \<Rightarrow>
          (case cmd t of
             None \<Rightarrow> (t\<lparr>pc := Panicked\<rparr>, w)
           | Some a \<Rightarrow>
               (case Process (heap w a) of
                  None \<Rightarrow> (t\<lparr>pc := Panicked\<rparr>, w)
                | Some p \<Rightarrow>
                    (let cmdID' = Sprintf ''%s-%d'' [S (Tag (cmdInfo t)), D p]
                     in (t\<lparr>cmdID := cmdID', pc := Stored\<rparr>,
                         w\<lparr>activeCommands := AList.update cmdID' a (activeCommands w)\<rparr>))))
      | Stored \<Rightarrow>
          (t\<lparr>pc := Drained\<rparr>,
           processOutput (stderr_data (script t)) (Tag (cmdInfo t)) ''err'' colorRed
             (processOutput (stdout_data (script t)) (Tag (cmdInfo t)) ''out'' colorGreen w))
      | Drained \<Rightarrow>
          (case cmd t of
             None \<Rightarrow> (t\<lparr>pc := Panicked\<rparr>, w)
           | Some a \<Rightarrow>
               (case Process (heap w a) of
                  None \<Rightarrow> (t\<lparr>pc := Panicked\<rparr>, w)
                | Some p \<Rightarrow>
                    (t\<lparr>err := wait_result (script t), pc := Waited\<rparr>,
                     w\<lparr>children := remove1 p (children w)\<rparr>)))
      | Waited \<Rightarrow>
          (t\<lparr>pc := Deleted\<rparr>,
           w\<lparr>activeCommands := AList.delete (cmdID t) (activeCommands w)\<rparr>)
      | Deleted \<Rightarrow>
          (t\<lparr>pc := Cleared\<rparr>,
           if \<not> parallelMode w then w\<lparr>currentSequentialCmd := None\<rparr> else w)
      | Cleared \<Rightarrow> (t\<lparr>pc := Returned\<rparr>, report t w)
      | Returned \<Rightarrow> (t, w)
      | Panicked \<Rightarrow> (t, w))"

definition enter :: "CommandInfo \<Rightarrow> script \<Rightarrow> thread" where
  "enter ci sc =
     \<lparr>cmdInfo = ci, script = sc, pc = Entry, cmd = None, cmdID = [], err = WaitNil\<rparr>"

text \<open>\<open>steps n\<close>: the first \<open>n\<close> steps of a call. No call takes more than ten.\<close>

fun steps :: "nat \<Rightarrow> thread \<times> world \<Rightarrow> thread \<times> world" where
  "steps 0 c = c"
| "steps (Suc n) c = (case steps n c of (t, w) \<Rightarrow> exec_step t w)"

definition executeCommand :: "CommandInfo \<Rightarrow> script \<Rightarrow> world \<Rightarrow> world" where
  "executeCommand ci sc w = snd (steps 10 (enter ci sc, w))"

subsection \<open>runCommands\<close>

fun runSequential :: "(CommandInfo \<times> script) list \<Rightarrow> world \<Rightarrow> world" where
  "runSequential [] w = w"
| "runSequential ((ci, sc) # commands) w = runSequential commands (executeCommand ci sc w)"

text \<open>
  The program as a whole: the goroutines of \<^verbatim>\<open>runParallel\<close> (or the one caller of
  \<^verbatim>\<open>runSequential\<close>) and the signal handler take turns, one step at a time. An event
  is a step of the command at position \<open>k\<close> or the arrival of a signal; after
  \<^verbatim>\<open>os.Exit\<close> nothing runs.
\<close>

datatype event = Run nat | Sig signal Time

record system =
  shared :: world
  threads :: "thread list"
  exited :: "int option"

definition sys_step :: "event \<Rightarrow> system \<Rightarrow> system" where
  "sys_step e s =
     (if exited s \<noteq> None then s
      else
        (case e of
           Run k \<Rightarrow>
             (if k < length (threads s) then
                (case exec_step (threads s ! k) (shared s) of
                   (t, w) \<Rightarrow> s\<lparr>shared := w, threads := (threads s)[k := t]\<rparr>)
              else s)
         | Sig sig now \<Rightarrow>
             (case handleSignal sig now (shared s) of
                (Exit code, w) \<Rightarrow> s\<lparr>shared := w, exited := Some code\<rparr>
              | (Return u, w) \<Rightarrow> s\<lparr>shared := w\<rparr>)))"

fun run_events :: "event list \<Rightarrow> system \<Rightarrow> system" where
  "run_events [] s = s"
| "run_events (e # es) s = run_events es (sys_step e s)"

text \<open>\<^verbatim>\<open>runCommands\<close> sets the mode; every command is then at its entry.\<close>

definition launch :: "bool \<Rightarrow> (CommandInfo \<times> script) list \<Rightarrow> world \<Rightarrow> system" where
  "launch parallel commands w =
     \<lparr>shared = w\<lparr>parallelMode := parallel\<rparr>,
      threads = map (\<lambda>(ci, sc). enter ci sc) commands,
      exited = None\<rparr>"

text \<open>
  A schedule is sequential when a command steps only once all commands before it have
  returned, as under \<^verbatim>\<open>runSequential\<close>.
\<close>

definition may_run :: "system \<Rightarrow> nat \<Rightarrow> bool" where
  "may_run s k = (k < length (threads s) \<and> list_all (\<lambda>t. pc t = Returned) (take k (threads s)))"

text \<open>The state at program start: every package-level variable has its zero value.\<close>

definition initial :: world where
  "initial =
     \<lparr>noColor = False, colorSupported = False, envVars = [], tags = [], activeCommands = [],
      forceShell = False, parallelMode = False, lastSigIntTime = 0,
      currentSequentialCmd = None, windows = False, environ = [],
      heap = (\<lambda>a. \<lparr>Args = [], Env = [], Process = None\<rparr>), fresh = 0, stdout = [],
      children = [], delivered = []\<rparr>"

section \<open>The specification's notions\<close>

text \<open>The shell metacharacters the specification lists for the classifier.\<close>

definition metachars :: "char list" where
  "metachars = ''|&;<>()$'' @ [CHR 0x60, CHR 0x5C, CHR 0x22, CHR 0x27] @ ''*?[]#~=%''"

text \<open>
  The resolver in the specification's words. An argument is inline-tagged when it begins
  with \<open>+\<close> and contains a colon; a declaration \<open>name:command\<close> is split at its first colon;
  the pool holds the inline declarations, then those flag declarations that have a colon.
\<close>

definition inlineTagged :: "string \<Rightarrow> bool" where
  "inlineTagged arg = (arg \<noteq> [] \<and> hd arg = CHR ''+'' \<and> CHR '':'' \<in> set arg)"

definition parseDecl :: "string \<Rightarrow> taggedCommand" where
  "parseDecl s =
     (takeWhile (\<lambda>c. c \<noteq> CHR '':'') s, drop 1 (dropWhile (\<lambda>c. c \<noteq> CHR '':'') s))"

definition positional :: "string list \<Rightarrow> string list" where
  "positional args = filter (\<lambda>arg. \<not> inlineTagged arg) args"

definition pendingPool :: "string list \<Rightarrow> string list \<Rightarrow> taggedCommand list" where
  "pendingPool args flags =
     map (\<lambda>arg. parseDecl (tl arg)) (filter inlineTagged args)
     @ map parseDecl (filter (\<lambda>flag. CHR '':'' \<in> set flag) flags)"

text \<open>
  \<open>resolved i texts pool\<close>: the work items for the positional texts from position \<open>i\<close> on,
  each taking the tag of the first pending declaration of its text and consuming it, or
  else the decimal of its position plus one; then the unconsumed declarations, in pool
  order, with the indices that follow.
\<close>

fun resolved :: "nat \<Rightarrow> string list \<Rightarrow> taggedCommand list \<Rightarrow> CommandInfo list" where
  "resolved i [] pool =
     map (\<lambda>(k, d). \<lparr>Command = snd d, Tag = fst d, Index = int k\<rparr>) (enumerate i pool)"
| "resolved i (text # rest) pool =
     (case find (\<lambda>d. snd d = text) pool of
        Some d \<Rightarrow>
          \<lparr>Command = text, Tag = fst d, Index = int i\<rparr> # resolved (Suc i) rest (remove1 d pool)
      | None \<Rightarrow>
          \<lparr>Command = text, Tag = itoa (int i + 1), Index = int i\<rparr> # resolved (Suc i) rest pool)"

text \<open>
  The newline-delimited lines of a byte stream: \<open>cur\<close> is the line read so far; a last
  line without newline counts unless it is empty.
\<close>

fun splitLines :: "string \<Rightarrow> string \<Rightarrow> string list" where
  "splitLines cur [] = (if cur = [] then [] else [cur])"
| "splitLines cur (c # rest) =
     (if c = CHR 0x0A then cur # splitLines [] rest else splitLines (cur @ [c]) rest)"

text \<open>The two line formats of the specification.\<close>

definition colorless :: "string \<Rightarrow> string \<Rightarrow> string \<Rightarrow> string" where
  "colorless tag streamType line = ''['' @ tag @ '':'' @ streamType @ ''] '' @ line @ [CHR 0x0A]"

definition colored :: "string \<Rightarrow> string \<Rightarrow> string \<Rightarrow> string" where
  "colored color tag line = color @ ''['' @ tag @ ''] '' @ colorReset @ line @ [CHR 0x0A]"

text \<open>What a line of the child looks like on standard output in the world \<open>w\<close>.\<close>

definition tagged :: "world \<Rightarrow> string \<Rightarrow> string \<Rightarrow> string \<Rightarrow> string \<Rightarrow> string" where
  "tagged w tag streamType color line =
     (if noColor w \<or> \<not> colorSupported w then colorless tag streamType line
      else colored color tag line)"

text \<open>A status message as it appears on standard output.\<close>

definition statusLine :: "world \<Rightarrow> string \<Rightarrow> string \<Rightarrow> string" where
  "statusLine w color message =
     (if noColor w \<or> \<not> colorSupported w then message @ [CHR 0x0A]
      else color @ message @ colorReset @ [CHR 0x0A])"

text \<open>A line is short when, with its newline, it fits the scanner's buffer.\<close>

definition short :: "string \<Rightarrow> bool" where
  "short line = (length line < MaxScanTokenSize)"

text \<open>The processes of the registered commands, in the order of the registry.\<close>

definition targets :: "world \<Rightarrow> pid list" where
  "targets w = List.map_filter (\<lambda>(key, a). Process (heap w a)) (activeCommands w)"

text \<open>
  A call builds its command when the shell is used or the tokenizer gives a non-empty
  argument vector, and it spawns when, further, both pipes are created and \<^verbatim>\<open>Start\<close>
  succeeds.
\<close>

definition builds :: "world \<Rightarrow> CommandInfo \<Rightarrow> script \<Rightarrow> bool" where
  "builds w ci sc =
     (needsShell w (Command ci)
      \<or> (case split_result sc of Inl e \<Rightarrow> False | Inr args \<Rightarrow> args \<noteq> []))"

definition spawns :: "world \<Rightarrow> CommandInfo \<Rightarrow> script \<Rightarrow> bool" where
  "spawns w ci sc =
     (builds w ci sc \<and> stdoutPipe_err sc = None \<and> stderrPipe_err sc = None
      \<and> (case start_result sc of Inl e \<Rightarrow> False | Inr p \<Rightarrow> True))"

text \<open>
  A command has an entry in the registry when its key, the tag, a dash and the process
  id, is bound to its \<^verbatim>\<open>exec.Cmd\<close>; its child is running when it has been started and is
  not yet reaped.
\<close>

definition registered :: "world \<Rightarrow> thread \<Rightarrow> bool" where
  "registered w t =
     (case cmd t of
        None \<Rightarrow> False
      | Some a \<Rightarrow>
          (case Process (heap w a) of
             None \<Rightarrow> False
           | Some p \<Rightarrow> map_of (activeCommands w) (Tag (cmdInfo t) @ ''-'' @ itoa p) = Some a))"

definition running :: "world \<Rightarrow> thread \<Rightarrow> bool" where
  "running w t =
     (case cmd t of
        None \<Rightarrow> False
      | Some a \<Rightarrow>
          (case Process (heap w a) of None \<Rightarrow> False | Some p \<Rightarrow> p \<in> set (children w)))"

text \<open>A command and a script for it, to run the model on.\<close>

definition exampleCommand :: CommandInfo where
  "exampleCommand = \<lparr>Command = ''true'', Tag = ''1'', Index = 0\<rparr>"

definition exampleScript :: script where
  "exampleScript =
     \<lparr>split_result = Inr [''true''], stdoutPipe_err = None, stderrPipe_err = None,
      start_result = Inr 4242, stdout_data = [], stderr_data = [], wait_result = WaitNil\<rparr>"

chapter \<open>Properties\<close>

section \<open>Strings\<close>

lemma HasPrefix_hd: "HasPrefix s (p # ps) \<Longrightarrow> p \<in> set s"
  by (cases s) auto

lemma Contains_hd: "Contains s (p # ps) \<Longrightarrow> p \<in> set s"
  by (induction s) (auto dest: HasPrefix_hd)

lemma anySpecial_iff: "anySpecial command chars = (\<exists>ch \<in> set chars. Contains command ch)"
  by (induction chars) auto


section \<open>The Command Resolver\<close>

lemma HasPrefix_single: "HasPrefix s [c] = (s \<noteq> [] \<and> hd s = c)"
  by (cases s) auto

lemma Contains_single: "Contains s [c] = (c \<in> set s)"
  by (induction s) auto

lemma Cut_single:
  "Cut s [c] = (if c \<in> set s
                then Some (takeWhile (\<lambda>x. x \<noteq> c) s, drop 1 (dropWhile (\<lambda>x. x \<noteq> c) s))
                else None)"
  by (induction s) auto

lemma SplitN2_colon:
  "SplitN2 s '':'' = (if CHR '':'' \<in> set s then [fst (parseDecl s), snd (parseDecl s)] else [s])"
  by (simp add: SplitN2_def Cut_single parseDecl_def)

lemma separateArgs_eq:
  "separateArgs args (regularArgs, taggedCommands, w) =
     (regularArgs @ positional args,
      taggedCommands @ map (\<lambda>arg. parseDecl (tl arg)) (filter inlineTagged args), w)"
proof (induction args arbitrary: regularArgs taggedCommands)
  case Nil
  show ?case by (simp add: positional_def)
next
  case (Cons arg args)
  show ?case
  proof (cases "inlineTagged arg")
    case True
    then have c: "CHR '':'' \<in> set (tl arg)"
      by (cases arg) (auto simp: inlineTagged_def)
    from True have e: "(HasPrefix arg ''+'' \<and> Contains arg '':'') = True"
      by (simp add: HasPrefix_single Contains_single inlineTagged_def)
    from True c show ?thesis
      by (simp add: e Cons.IH SplitN2_colon positional_def drop_Suc)
  next
    case False
    then have e: "(HasPrefix arg ''+'' \<and> Contains arg '':'') = False"
      by (simp add: HasPrefix_single Contains_single inlineTagged_def)
    from False show ?thesis
      by (simp add: e Cons.IH positional_def)
  qed
qed

lemma addTagFlags_fst:
  "fst (addTagFlags flags (taggedCommands, w)) =
     taggedCommands @ map parseDecl (filter (\<lambda>flag. CHR '':'' \<in> set flag) flags)"
  by (induction flags arbitrary: taggedCommands w) (simp_all add: SplitN2_colon)

lemma findTag_eq:
  "\<forall>k < j. snd (pool ! k) \<noteq> c \<Longrightarrow> j \<le> length pool \<Longrightarrow>
   findTag c pool j tag =
     (case find (\<lambda>d. snd d = c) pool of Some d \<Rightarrow> (fst d, remove1 d pool) | None \<Rightarrow> (tag, pool))"
proof (induction c pool j tag rule: findTag.induct)
  case (1 c pool j tag)
  show ?case
  proof (cases "j < length pool")
    case False
    with "1.prems" have "\<forall>d \<in> set pool. snd d \<noteq> c"
      by (fastforce simp: in_set_conv_nth)
    then have "find (\<lambda>d. snd d = c) pool = None"
      by (auto simp: find_None_iff)
    with False show ?thesis by (subst findTag.simps) simp
  next
    case True
    show ?thesis
    proof (cases "snd (pool ! j) = c")
      case False
      with "1.prems" have "\<forall>k < j + 1. snd (pool ! k) \<noteq> c"
        by (auto simp: less_Suc_eq)
      with "1.IH" [OF True False] True False show ?thesis
        by (subst findTag.simps) simp
    next
      case hit: True
      have f: "find (\<lambda>d. snd d = c) pool = Some (pool ! j)"
        using True hit "1.prems" by (auto simp: find_Some_iff)
      have "pool ! j \<notin> set (take j pool)"
        using "1.prems" hit by (auto simp: in_set_conv_nth)
      then have "remove1 (pool ! j) pool = take j pool @ remove1 (pool ! j) (drop j pool)"
        using remove1_append [of "pool ! j" "take j pool" "drop j pool"] by simp
      moreover have "drop j pool = pool ! j # drop (Suc j) pool"
        using True by (simp add: Cons_nth_drop_Suc)
      ultimately have "remove1 (pool ! j) pool = take j pool @ drop (Suc j) pool"
        by simp
      with f True hit show ?thesis
        by (subst findTag.simps) simp
    qed
  qed
qed

lemma addRemaining_snd:
  "snd (addRemaining pool (int i, commands)) =
     commands @ map (\<lambda>(k, d). \<lparr>Command = snd d, Tag = fst d, Index = int k\<rparr>) (enumerate i pool)"
proof (induction pool arbitrary: i commands)
  case Nil
  show ?case by simp
next
  case (Cons d pool)
  have s: "int i + 1 = int (Suc i)" by simp
  show ?case
    by (simp add: s Cons.IH del: of_nat_Suc)
qed

lemma tagRegular_resolved:
  "snd (addRemaining (fst (tagRegular (int i) regs (pool, commands)))
          (int (i + length regs), snd (tagRegular (int i) regs (pool, commands)))) =
   commands @ resolved i regs pool"
proof (induction regs arbitrary: i pool commands)
  case Nil
  show ?case by (simp add: addRemaining_snd)
next
  case (Cons c regs)
  have s: "int i + 1 = int (Suc i)" by simp
  show ?case
    using Cons.IH [of "Suc i"]
    by (simp add: findTag_eq s split: option.split del: of_nat_Suc)
qed

lemma processCommands_fst:
  "fst (processCommands args w) =
     (if resolved 0 (positional args) (pendingPool args (tags w)) = [] then Exit 1
      else Return (resolved 0 (positional args) (pendingPool args (tags w))))"
proof -
  obtain pool w2 where a: "addTagFlags (tags w) (map (\<lambda>arg. parseDecl (tl arg)) (filter inlineTagged args), w) = (pool, w2)"
    by (cases "addTagFlags (tags w) (map (\<lambda>arg. parseDecl (tl arg)) (filter inlineTagged args), w)")
  have p: "pool = pendingPool args (tags w)"
    using addTagFlags_fst [of "tags w" "map (\<lambda>arg. parseDecl (tl arg)) (filter inlineTagged args)" w] a
    by (simp add: pendingPool_def)
  obtain pool3 commands1 where t: "tagRegular 0 (positional args) (pool, []) = (pool3, commands1)"
    by (cases "tagRegular 0 (positional args) (pool, [])")
  obtain ri commands where r: "addRemaining pool3 (int (length (positional args)), commands1) = (ri, commands)"
    by (cases "addRemaining pool3 (int (length (positional args)), commands1)")
  have "commands = resolved 0 (positional args) pool"
    using tagRegular_resolved [of 0 "positional args" pool "[]"] t r by simp
  with a p t r show ?thesis
    by (simp add: processCommands_def separateArgs_eq)
qed


text \<open>
  Claim C1. \<^verbatim>\<open>processCommands\<close> returns exactly the work list of the specification: the
  positional arguments in their order, each with its position as index and the tag of the
  first pending declaration (inline declarations first, then flag declarations) whose
  command text equals it, that declaration being consumed, or else the decimal of its
  position plus one; then the unconsumed declarations in pool order with the following
  indices. When that list is empty the function does not return: it exits with status 1.
\<close>

theorem processCommands_resolved:
  "fst (processCommands args w) =
     (if resolved 0 (positional args) (pendingPool args (tags w)) = [] then Exit 1
      else Return (resolved 0 (positional args) (pendingPool args (tags w))))"
  by (rule processCommands_fst)

theorem processCommands_resolved_witness:
  "fst (processCommands [''echo hello'', ''echo world''] (initial\<lparr>tags := [''greeting:echo hello'']\<rparr>)) =
     Return [\<lparr>Command = ''echo hello'', Tag = ''greeting'', Index = 0\<rparr>,
             \<lparr>Command = ''echo world'', Tag = ''2'', Index = 1\<rparr>]"
  using processCommands_resolved [of "[''echo hello'', ''echo world'']" "initial\<lparr>tags := [''greeting:echo hello'']\<rparr>"]
  by (simp add: initial_def positional_def pendingPool_def inlineTagged_def parseDecl_def itoa_def digit_char_def)


text \<open>
  Claim C9. For an argument that begins with \<open>+\<close> and contains a colon, splitting the rest
  at the first colon gives exactly two parts, so the first loop never prints the warning
  for a malformed inline tag; an argument that begins with \<open>+\<close> and has no colon is a
  regular argument.
\<close>

theorem inline_warning_unreachable:
  "(HasPrefix arg ''+'' \<and> Contains arg '':'' \<longrightarrow> length (SplitN2 (drop 1 arg) '':'') = 2)
   \<and> snd (snd (separateArgs args (regularArgs, taggedCommands, w))) = w
   \<and> (HasPrefix arg ''+'' \<and> \<not> Contains arg '':'' \<longrightarrow>
        separateArgs [arg] (regularArgs, taggedCommands, w) = (regularArgs @ [arg], taggedCommands, w))"
proof (intro conjI impI)
  assume a: "HasPrefix arg ''+'' \<and> Contains arg '':''"
  then have "CHR '':'' \<in> set (drop 1 arg)"
    by (cases arg) (auto simp: Contains_single)
  then show "length (SplitN2 (drop 1 arg) '':'') = 2"
    by (simp add: SplitN2_colon)
next
  show "snd (snd (separateArgs args (regularArgs, taggedCommands, w))) = w"
    by (simp add: separateArgs_eq)
next
  assume "HasPrefix arg ''+'' \<and> \<not> Contains arg '':''"
  then show "separateArgs [arg] (regularArgs, taggedCommands, w) = (regularArgs @ [arg], taggedCommands, w)"
    by simp
qed

theorem inline_warning_unreachable_witness:
  "length (SplitN2 (drop 1 ''+a:b'') '':'') = 2
   \<and> snd (snd (separateArgs [''+a:b'', ''+:'', ''+x''] ([], [], initial))) = initial
   \<and> separateArgs [''+invalid-format''] ([], [], initial) = ([''+invalid-format''], [], initial)"
  using inline_warning_unreachable [of "''+a:b''" "[''+a:b'', ''+:'', ''+x'']" "[]" "[]" initial]
    inline_warning_unreachable [of "''+invalid-format''" "[]" "[]" "[]" initial]
  by (simp add: SplitN2_def)


lemma digits_nonempty: "digits n \<noteq> []"
  by (subst digits.simps) simp

lemma itoa_nonempty: "itoa n \<noteq> []"
  by (simp add: itoa_def digits_nonempty)

lemma resolved_Nil_tags: "map Tag (resolved i [] pool) = map fst pool"
  by (induction pool arbitrary: i) simp_all

lemma resolved_tags_pool:
  "d \<in> set pool \<Longrightarrow> fst d \<in> Tag ` set (resolved i texts pool)"
proof (induction texts arbitrary: i pool)
  case Nil
  have "Tag ` set (resolved i [] pool) = fst ` set pool"
    using resolved_Nil_tags [of i pool] by (metis set_map)
  with Nil show ?case by simp
next
  case (Cons x rest)
  show ?case
  proof (cases "find (\<lambda>d. snd d = x) pool")
    case None
    with Cons show ?thesis by simp
  next
    case (Some e)
    show ?thesis
    proof (cases "d = e")
      case True
      with Some show ?thesis by simp
    next
      case False
      with Cons.prems have "d \<in> set (remove1 e pool)" by simp
      from Cons.IH [OF this] Some show ?thesis by simp
    qed
  qed
qed

lemma resolved_tags_empty:
  "c \<in> set (resolved i texts pool) \<Longrightarrow> Tag c = [] \<Longrightarrow> \<exists>d \<in> set pool. fst d = []"
proof (induction texts arbitrary: i pool)
  case Nil
  have "Tag ` set (resolved i [] pool) = fst ` set pool"
    using resolved_Nil_tags [of i pool] by (metis set_map)
  with Nil show ?case by force
next
  case (Cons x rest)
  show ?case
  proof (cases "find (\<lambda>d. snd d = x) pool")
    case None
    with Cons.prems have "c \<in> set (resolved (Suc i) rest pool)"
      by (auto simp: itoa_nonempty)
    from Cons.IH [OF this Cons.prems(2)] show ?thesis .
  next
    case (Some e)
    then have e: "e \<in> set pool"
      by (auto simp: find_Some_iff)
    from Some Cons.prems(1)
    consider "c = \<lparr>Command = x, Tag = fst e, Index = int i\<rparr>" | "c \<in> set (resolved (Suc i) rest (remove1 e pool))"
      by auto
    then show ?thesis
    proof cases
      case 1
      with Cons.prems(2) e show ?thesis by auto
    next
      case 2
      from Cons.IH [OF this Cons.prems(2)] show ?thesis
        using set_remove1_subset [of e pool] by blast
    qed
  qed
qed

lemma processCommands_Return:
  "fst (processCommands args w) = Return commands \<Longrightarrow>
   commands = resolved 0 (positional args) (pendingPool args (tags w))"
  by (simp add: processCommands_fst split: if_splits)

text \<open>
  Claim C6 says that every work item has a non-empty tag. The resolver takes the name of
  a declaration as it stands, so the declaration \<open>+:cmd\<close> gives a work item whose tag is
  empty.
\<close>

theorem empty_tag_counterexample:
  "fst (processCommands [''+:cmd''] initial) = Return [\<lparr>Command = ''cmd'', Tag = [], Index = 0\<rparr>]"
  by (simp add: processCommands_fst initial_def positional_def pendingPool_def inlineTagged_def parseDecl_def)

text \<open>
  Claim C6, amended. The work list has an item with an empty tag exactly when some pending
  declaration has an empty name: default tags are never empty, every declared name ends
  up as the tag of some work item, and no other tags occur.
\<close>

theorem empty_tag_iff:
  assumes "fst (processCommands args w) = Return commands"
  shows "(\<exists>c \<in> set commands. Tag c = []) = (\<exists>d \<in> set (pendingPool args (tags w)). fst d = [])"
proof
  assume "\<exists>c \<in> set commands. Tag c = []"
  then show "\<exists>d \<in> set (pendingPool args (tags w)). fst d = []"
    using processCommands_Return [OF assms] resolved_tags_empty by blast
next
  assume "\<exists>d \<in> set (pendingPool args (tags w)). fst d = []"
  then obtain d where "d \<in> set (pendingPool args (tags w))" and "fst d = []" by blast
  then have "[] \<in> Tag ` set (resolved 0 (positional args) (pendingPool args (tags w)))"
    using resolved_tags_pool [of d] by metis
  then show "\<exists>c \<in> set commands. Tag c = []"
    using processCommands_Return [OF assms] by force
qed

theorem empty_tag_iff_witness:
  "fst (processCommands [''echo hello'', ''+farewell:echo world''] initial) =
     Return [\<lparr>Command = ''echo hello'', Tag = ''1'', Index = 0\<rparr>,
             \<lparr>Command = ''echo world'', Tag = ''farewell'', Index = 1\<rparr>]
   \<and> \<not> (\<exists>c \<in> set [\<lparr>Command = ''echo hello'', Tag = ''1'', Index = 0\<rparr>,
             \<lparr>Command = ''echo world'', Tag = ''farewell'', Index = 1\<rparr>]. Tag c = [])"
proof -
  have h: "fst (processCommands [''echo hello'', ''+farewell:echo world''] initial) =
     Return [\<lparr>Command = ''echo hello'', Tag = ''1'', Index = 0\<rparr>,
             \<lparr>Command = ''echo world'', Tag = ''farewell'', Index = 1\<rparr>]"
    by (simp add: processCommands_fst initial_def positional_def pendingPool_def inlineTagged_def
        parseDecl_def itoa_def digit_char_def)
  from empty_tag_iff [OF h] h show ?thesis
    by (simp add: initial_def pendingPool_def inlineTagged_def parseDecl_def)
qed


section \<open>The Shell-Need Classifier\<close>

text \<open>
  Claim C3. \<^verbatim>\<open>needsShell\<close> is true exactly when the shell is forced, or an environment
  variable was supplied, or the command contains one of the twenty metacharacters; the
  later checks for \<open>&&\<close>, \<open>||\<close>, redirections, pipes and globs add nothing.
\<close>

theorem needsShell_iff:
  "needsShell w command =
     (forceShell w \<or> envVars w \<noteq> [] \<or> (\<exists>ch \<in> set metachars. ch \<in> set command))"
proof -
  have a: "anySpecial command shellSpecialChars = (\<exists>ch \<in> set metachars. ch \<in> set command)"
    by (simp add: anySpecial_iff shellSpecialChars_def metachars_def Contains_single)
  have b: "Contains command ''&&'' \<Longrightarrow> \<exists>ch \<in> set metachars. ch \<in> set command"
    by (auto dest!: Contains_hd simp: metachars_def)
  have c: "Contains command ''||'' \<Longrightarrow> \<exists>ch \<in> set metachars. ch \<in> set command"
    by (auto dest!: Contains_hd simp: metachars_def)
  have d: "\<And>x. x \<in> set '';><|*?['' \<Longrightarrow> Contains command [x] \<Longrightarrow> \<exists>ch \<in> set metachars. ch \<in> set command"
    by (auto simp: Contains_single metachars_def)
  show ?thesis
    unfolding needsShell_def using a b c d by auto
qed

theorem needsShell_iff_witness:
  "needsShell initial ''echo hello | grep hello'' \<and> \<not> needsShell initial ''echo hello''
   \<and> needsShell (initial\<lparr>envVars := [''VAR=value'']\<rparr>) ''echo hello''"
  using needsShell_iff [of initial "''echo hello | grep hello''"]
    needsShell_iff [of initial "''echo hello''"]
    needsShell_iff [of "initial\<lparr>envVars := [''VAR=value'']\<rparr>" "''echo hello''"]
  by (simp add: initial_def metachars_def)

section \<open>The Output Multiplexer\<close>

lemma Print_fields [simp]:
  "noColor (Print s w) = noColor w" "colorSupported (Print s w) = colorSupported w"
  "stdout (Print s w) = stdout w @ [s]"
  by (simp_all add: Print_def)

lemma writeLine_eq:
  "writeLine tag streamType color line w = Print (tagged w tag streamType color line) w"
  by (simp add: writeLine_def tagged_def colorless_def colored_def Println_def)

lemma tagged_Print [simp]: "tagged (Print s w) = tagged w"
  by (simp add: tagged_def fun_eq_iff)

lemma writeLines_eq:
  "writeLines tag streamType color ls w =
     w\<lparr>stdout := stdout w @ map (tagged w tag streamType color) ls\<rparr>"
proof (induction ls arbitrary: w)
  case Nil
  show ?case by simp
next
  case (Cons l ls)
  show ?case
    by (simp add: Cons.IH writeLine_eq) (simp add: Print_def tagged_def)
qed

lemma printColoredMessage_eq:
  "printColoredMessage message color w = Print (statusLine w color message) w"
  by (simp add: printColoredMessage_def statusLine_def Println_def)

lemma processOutput_stdout:
  "stdout (processOutput pipe tag streamType color w) =
     stdout w @ map (tagged w tag streamType color) (fst (scanAll pipe))
     @ (if snd (scanAll pipe)
        then [statusLine w colorRed
                (''['' @ tag @ ''] Error reading '' @ streamType @ '': '' @ ErrTooLong)]
        else [])"
  by (cases "scanAll pipe")
    (simp add: processOutput_def writeLines_eq printColoredMessage_eq statusLine_def)

lemma splitLines_unfold:
  "splitLines cur data =
     (if CHR 0x0A \<in> set data then
        (cur @ takeWhile (\<lambda>c. c \<noteq> CHR 0x0A) data)
          # splitLines [] (drop 1 (dropWhile (\<lambda>c. c \<noteq> CHR 0x0A) data))
      else if cur @ data = [] then [] else [cur @ data])"
proof (induction data arbitrary: cur)
  case Nil
  show ?case by simp
next
  case (Cons c data)
  show ?case
    by (simp add: Cons.IH [of "cur @ [c]"])
qed

lemma scanAll_splitLines:
  "scanAll data =
     (map dropCR (takeWhile short (splitLines [] data)), \<not> list_all short (splitLines [] data))"
proof (induction data rule: scanAll.induct)
  case (1 data)
  show ?case
  proof (cases "data = []")
    case True
    then show ?thesis by (subst scanAll.simps) simp
  next
    case False
    define line where "line = takeWhile (\<lambda>c. c \<noteq> CHR 0x0A) data"
    define rest where "rest = dropWhile (\<lambda>c. c \<noteq> CHR 0x0A) data"
    have tw: "CHR 0x0A \<notin> set data \<Longrightarrow> line = data"
      unfolding line_def by (induction data) auto
    have sl: "splitLines [] data =
        (if CHR 0x0A \<in> set data then line # splitLines [] (drop 1 rest) else [line])"
    proof (cases "CHR 0x0A \<in> set data")
      case True
      then show ?thesis
        using splitLines_unfold [of "[]" data] by (simp add: line_def rest_def)
    next
      case False
      with tw \<open>data \<noteq> []\<close> show ?thesis
        using splitLines_unfold [of "[]" data] by simp
    qed
    have nonl: "CHR 0x0A \<notin> set data \<Longrightarrow> drop 1 rest = []"
      unfolding rest_def by (induction data) auto
    have nil: "scanAll [] = ([], False)"
      by (subst scanAll.simps) simp
    have sc: "scanAll data =
        (if MaxScanTokenSize \<le> length line then ([], True)
         else (dropCR line # fst (scanAll (drop 1 rest)), snd (scanAll (drop 1 rest))))"
      using False
      by (subst scanAll.simps) (simp add: line_def rest_def Let_def split: prod.split)
    show ?thesis
    proof (cases "MaxScanTokenSize \<le> length line")
      case True
      with sl sc show ?thesis
        by (simp add: short_def)
    next
      case fits: False
      note IH = "1.IH" [OF False line_def rest_def fits]
      show ?thesis
      proof (cases "CHR 0x0A \<in> set data")
        case True
        with sl sc fits IH show ?thesis
          by (simp add: short_def)
      next
        case False
        with sl sc fits nonl nil show ?thesis
          by (simp add: short_def)
      qed
    qed
  qed
qed

text \<open>
  Claim C4. For the lines that the scanner delivers, \<^verbatim>\<open>processOutput\<close> writes, in order and
  each ended by a newline: without color the prefix \<open>[tag:kind]\<close>, a space and the line;
  with color the color code, \<open>[tag]\<close>, a space, the reset code and the line. The only other
  write is the message for a scanner error, after the lines.
\<close>

theorem processOutput_format:
  "stdout (processOutput pipe tag streamType color w) =
     stdout w
     @ map (\<lambda>line. if noColor w \<or> \<not> colorSupported w then colorless tag streamType line
                   else colored color tag line)
         (fst (scanAll pipe))
     @ (if snd (scanAll pipe)
        then [statusLine w colorRed
                (''['' @ tag @ ''] Error reading '' @ streamType @ '': '' @ ErrTooLong)]
        else [])"
  using processOutput_stdout [of pipe tag streamType color w]
  by (simp add: tagged_def [abs_def])

theorem processOutput_format_witness:
  "stdout (processOutput (''hi'' @ [CHR 0x0A]) ''web'' ''out'' colorGreen
             (initial\<lparr>colorSupported := True\<rparr>)) =
     [CHR 0x1B # ''[32m[web] '' @ CHR 0x1B # ''[0mhi'' @ [CHR 0x0A]]
   \<and> stdout (processOutput (''hi'' @ [CHR 0x0A]) ''web'' ''out'' colorGreen initial) =
     [''[web:out] hi'' @ [CHR 0x0A]]"
proof -
  have "scanAll (''hi'' @ [CHR 0x0A]) = ([''hi''], False)"
    by (simp add: scanAll.simps MaxScanTokenSize_def dropCR_def)
  then show ?thesis
    using processOutput_format [of "''hi'' @ [CHR 0x0A]" "''web''" "''out''" colorGreen
        "initial\<lparr>colorSupported := True\<rparr>"]
      processOutput_format [of "''hi'' @ [CHR 0x0A]" "''web''" "''out''" colorGreen initial]
    by (simp add: initial_def colorless_def colored_def colorGreen_def colorReset_def)
qed

text \<open>
  Claim C7 says that a line of any length is delivered. The scanner keeps its default
  buffer limit of 65536 bytes: a stream that is one line of that length gives no output
  line at all, only the error message that ends the loop.
\<close>

theorem long_line_counterexample:
  "stdout (processOutput (replicate 65536 CHR ''a'') ''1'' ''out'' colorGreen initial) =
     [''[1] Error reading out: bufio.Scanner: token too long'' @ [CHR 0x0A]]"
proof -
  have "scanAll (replicate 65536 CHR ''a'') = ([], True)"
    by (subst scanAll.simps) (simp add: MaxScanTokenSize_def)
  then show ?thesis
    by (simp add: processOutput_stdout statusLine_def initial_def ErrTooLong_def)
qed

text \<open>
  Claim C7, amended. \<^verbatim>\<open>processOutput\<close> emits, as one tagged output line each and without
  a trailing carriage return, the newline-delimited lines of the stream up to the first
  line of 65536 bytes or more; when there is such a line, neither it nor any later line
  is emitted and the loop ends with an error message.
\<close>

theorem processOutput_lines:
  "stdout (processOutput pipe tag streamType color w) =
     stdout w
     @ map (\<lambda>line. tagged w tag streamType color (dropCR line)) (takeWhile short (splitLines [] pipe))
     @ (if list_all short (splitLines [] pipe) then []
        else [statusLine w colorRed
                (''['' @ tag @ ''] Error reading '' @ streamType @ '': '' @ ErrTooLong)])"
  by (simp add: processOutput_stdout scanAll_splitLines comp_def)

theorem processOutput_lines_witness:
  "stdout (processOutput (''a'' @ [CHR 0x0D, CHR 0x0A] @ ''bc'') ''1'' ''err'' colorRed initial) =
     [''[1:err] a'' @ [CHR 0x0A], ''[1:err] bc'' @ [CHR 0x0A]]"
  using processOutput_lines [of "''a'' @ [CHR 0x0D, CHR 0x0A] @ ''bc''" "''1''" "''err''" colorRed initial]
  by (simp add: short_def MaxScanTokenSize_def tagged_def colorless_def initial_def dropCR_def)

section \<open>The Signal Coordinator\<close>

lemma sendTo_fields [simp]:
  "heap (sendTo p d w) = heap w" "windows (sendTo p d w) = windows w"
  "delivered (sendTo p d w) = delivered w @ [(p, d)]"
  "parallelMode (sendTo p d w) = parallelMode w"
  "stdout (sendTo p d w) = stdout w"
  "lastSigIntTime (sendTo p d w) = lastSigIntTime w"
  "activeCommands (sendTo p d w) = activeCommands w"
  "currentSequentialCmd (sendTo p d w) = currentSequentialCmd w"
  "children (sendTo p d w) = children w"
  by (simp_all add: sendTo_def)

lemma forwardAll_eq:
  "forwardAll sig reg w =
     w\<lparr>delivered := delivered w
          @ map (\<lambda>p. (p, if windows w \<and> sig = SIGHUP then Kill else Signal sig))
              (List.map_filter (\<lambda>(key, a). Process (heap w a)) reg)\<rparr>"
proof (induction reg arbitrary: w)
  case Nil
  show ?case by (simp add: map_filter_simps)
next
  case (Cons e reg)
  obtain key a where e: "e = (key, a)" by (cases e)
  define d where "d = (if windows w \<and> sig = SIGHUP then Kill else Signal sig)"
  show ?case
  proof (cases "Process (heap w a)")
    case None
    then show ?thesis
      by (simp add: e Cons.IH map_filter_simps)
  next
    case (Some p)
    then have "forwardAll sig (e # reg) w = forwardAll sig reg (sendTo p d w)"
      by (simp add: e d_def)
    also have "\<dots> = (sendTo p d w)\<lparr>delivered := delivered (sendTo p d w)
          @ map (\<lambda>p. (p, d)) (List.map_filter (\<lambda>(key, a). Process (heap w a)) reg)\<rparr>"
      by (simp add: Cons.IH d_def)
    finally show ?thesis
      using Some by (simp add: e map_filter_simps sendTo_def d_def)
  qed
qed

lemma Print_more [simp]:
  "heap (Print s w) = heap w" "windows (Print s w) = windows w"
  "delivered (Print s w) = delivered w" "parallelMode (Print s w) = parallelMode w"
  "lastSigIntTime (Print s w) = lastSigIntTime w"
  "activeCommands (Print s w) = activeCommands w"
  "currentSequentialCmd (Print s w) = currentSequentialCmd w"
  "children (Print s w) = children w"
  "stdout (Print s w) = stdout w @ [s]"
  by (simp_all add: Print_def)

lemma handleSignal_SIGHUP:
  "handleSignal SIGHUP now w =
     (Return (),
      forwardAll SIGHUP (activeCommands w)
        (printColoredMessage
           (Sprintf ''Received signal: %v. Forwarding to all child processes...'' [S ''hangup''])
           colorYellow w))"
  by (simp add: handleSignal_def Let_def printColoredMessage_eq)

lemma Sub_less_Second: "(Sub now prev < Second) = (now - prev < 1000000000)"
  by (simp add: Sub_def Second_def maxDuration_def minDuration_def Let_def)

lemma handleSignal_SIGINT_sequential:
  assumes "\<not> parallelMode w"
  shows "handleSignal SIGINT now w =
     (if lastSigIntTime w \<noteq> 0 \<and> now - lastSigIntTime w < 1000000000 then
        (Exit 130, w\<lparr>stdout := stdout w @ [statusLine w colorYellow doubleNotice]\<rparr>)
      else
        (Return (),
         w\<lparr>lastSigIntTime := now,
           stdout := stdout w @ [statusLine w colorYellow singleNotice],
           delivered := delivered w @
             (case currentSequentialCmd w of
                None \<Rightarrow> []
              | Some a \<Rightarrow> (case Process (heap w a) of None \<Rightarrow> [] | Some p \<Rightarrow> [(p, Signal SIGINT)]))\<rparr>))"
  using assms
  by (simp add: handleSignal_def Sub_less_Second IsZero_def Let_def printColoredMessage_eq
      statusLine_def Print_def sendTo_def split: option.split)

lemma run_events_exited: "exited s \<noteq> None \<Longrightarrow> run_events es s = s"
  by (induction es arbitrary: s) (simp_all add: sys_step_def)

text \<open>
  Claim C2. In sequential mode, when an interrupt arrives: if an earlier interrupt is on
  record (\<open>lastSigIntTime\<close> is not the zero time) and lies less than one second back, the
  program prints the notice and exits with status 130, and nothing runs after that;
  otherwise the handler records the time, prints the press-again notice and sends the
  signal to the process of the current sequential command alone, to nobody when no
  command is recorded or the recorded one has no process. In that case nothing else
  changes: the program has not exited and every command is where it was, so the
  commands go on.
\<close>

theorem sigint_sequential:
  assumes "exited s = None" and "\<not> parallelMode (shared s)"
  shows "sys_step (Sig SIGINT now) s =
     (if lastSigIntTime (shared s) \<noteq> 0 \<and> now - lastSigIntTime (shared s) < 1000000000 then
        s\<lparr>shared := (shared s)
             \<lparr>stdout := stdout (shared s) @ [statusLine (shared s) colorYellow doubleNotice]\<rparr>,
          exited := Some (128 + signum SIGINT)\<rparr>
      else
        s\<lparr>shared := (shared s)
             \<lparr>lastSigIntTime := now,
              stdout := stdout (shared s) @ [statusLine (shared s) colorYellow singleNotice],
              delivered := delivered (shared s) @
                (case currentSequentialCmd (shared s) of
                   None \<Rightarrow> []
                 | Some a \<Rightarrow>
                     (case Process (heap (shared s) a) of
                        None \<Rightarrow> []
                      | Some p \<Rightarrow> [(p, Signal SIGINT)]))\<rparr>\<rparr>)
     \<and> (exited (sys_step (Sig SIGINT now) s) \<noteq> None \<longrightarrow>
           run_events es (sys_step (Sig SIGINT now) s) = sys_step (Sig SIGINT now) s)"
  using assms
  by (simp add: sys_step_def handleSignal_SIGINT_sequential run_events_exited)

theorem sigint_sequential_witness:
  "exited (sys_step (Sig SIGINT 5000000000) (launch False [(exampleCommand, exampleScript)] initial)) = None
   \<and> \<not> parallelMode (shared (sys_step (Sig SIGINT 5000000000)
                              (launch False [(exampleCommand, exampleScript)] initial)))
   \<and> exited (sys_step (Sig SIGINT 5500000000)
               (sys_step (Sig SIGINT 5000000000)
                  (launch False [(exampleCommand, exampleScript)] initial))) = Some 130
   \<and> exited (sys_step (Sig SIGINT 6000000000)
               (sys_step (Sig SIGINT 5000000000)
                  (launch False [(exampleCommand, exampleScript)] initial))) = None"
proof -
  define s where "s = sys_step (Sig SIGINT 5000000000)
                        (launch False [(exampleCommand, exampleScript)] initial)"
  have h1: "exited s = None" and h2: "\<not> parallelMode (shared s)"
    and h3: "lastSigIntTime (shared s) = 5000000000"
    by (simp_all add: s_def sys_step_def launch_def initial_def handleSignal_SIGINT_sequential)
  from sigint_sequential [OF h1 h2, of 5500000000] sigint_sequential [OF h1 h2, of 6000000000]
    h1 h2 h3
  show ?thesis
    unfolding s_def [symmetric] by simp
qed

text \<open>
  Claim C10. A hangup never ends the program, in either mode: the handler sends it to the
  process of every registered command (on Windows it kills the process instead) and
  returns to the loop; a handler that exits has received an interrupt or a terminate.
\<close>

theorem sighup_never_exits:
  "fst (handleSignal SIGHUP now w) = Return ()
   \<and> delivered (snd (handleSignal SIGHUP now w)) =
       delivered w @ map (\<lambda>p. (p, if windows w then Kill else Signal SIGHUP)) (targets w)
   \<and> exited (sys_step (Sig SIGHUP now) s) = exited s
   \<and> (fst (handleSignal sig now w) \<noteq> Return () \<longrightarrow> sig = SIGINT \<or> sig = SIGTERM)"
proof (intro conjI)
  show "fst (handleSignal SIGHUP now w) = Return ()"
    by (simp add: handleSignal_SIGHUP)
  show "delivered (snd (handleSignal SIGHUP now w)) =
       delivered w @ map (\<lambda>p. (p, if windows w then Kill else Signal SIGHUP)) (targets w)"
    by (simp add: handleSignal_SIGHUP forwardAll_eq printColoredMessage_eq targets_def)
  show "exited (sys_step (Sig SIGHUP now) s) = exited s"
    by (simp add: sys_step_def handleSignal_SIGHUP)
  show "fst (handleSignal sig now w) \<noteq> Return () \<longrightarrow> sig = SIGINT \<or> sig = SIGTERM"
    by (cases sig) (simp_all add: handleSignal_SIGHUP)
qed

theorem sighup_never_exits_witness:
  "fst (handleSignal SIGHUP 5
          (initial\<lparr>parallelMode := True, activeCommands := [(''1-77'', 0)],
             heap := (heap initial)(0 := \<lparr>Args = [''sh''], Env = [], Process = Some 77\<rparr>)\<rparr>)) = Return ()
   \<and> delivered (snd (handleSignal SIGHUP 5
          (initial\<lparr>parallelMode := True, activeCommands := [(''1-77'', 0)],
             heap := (heap initial)(0 := \<lparr>Args = [''sh''], Env = [], Process = Some 77\<rparr>)\<rparr>))) =
       [(77, Signal SIGHUP)]
   \<and> fst (handleSignal SIGTERM 5 initial) = Exit 143"
  using sighup_never_exits [of 5 "initial\<lparr>parallelMode := True, activeCommands := [(''1-77'', 0)],
             heap := (heap initial)(0 := \<lparr>Args = [''sh''], Env = [], Process = Some 77\<rparr>)\<rparr>"
             "launch False [] initial" SIGTERM]
  by (simp add: initial_def targets_def map_filter_simps handleSignal_def Let_def forwardAll_eq)


end
